theory Spec2Isabelle
  imports Complex_Main
begin

section \<open>Redfield relaxation tensors (pyQME, tensors/markov/redfield.py)\<close>

text \<open>
  The class \<^verbatim>\<open>RedfieldTensor\<close> builds, from an exciton eigenbasis and a spectral-density
  evaluator, the population-transfer rate matrix, the intermediate tensor \<^verbatim>\<open>GammF\<close>, the
  relaxation tensor \<^verbatim>\<open>RTen\<close>, the dephasing vector and the xi array.

  Arrays are modelled by their index functions: an array of shape \<open>dim \<times> dim\<close> is a function
  of two indices that is read below \<open>dim\<close> only, and the extents the source takes from
  \<^verbatim>\<open>self.dim\<close> (\<^verbatim>\<open>np.zeros\<close>, \<^verbatim>\<open>np.eye\<close>, the summed axes of a contraction) are written
  out. The one array whose extent does not come from \<^verbatim>\<open>self.dim\<close>, the time grid, is a list.
  Floating-point numbers are modelled by the real and complex numbers, so every identity
  below is one of exact arithmetic.
\<close>

subsection \<open>Data model\<close>

type_synonym rmat = "nat \<Rightarrow> nat \<Rightarrow> real"
type_synonym cmat = "nat \<Rightarrow> nat \<Rightarrow> complex"
type_synonym rten3 = "nat \<Rightarrow> nat \<Rightarrow> nat \<Rightarrow> real"
type_synonym cvec = "nat \<Rightarrow> complex"
type_synonym cten4 = "nat \<Rightarrow> nat \<Rightarrow> nat \<Rightarrow> nat \<Rightarrow> complex"

text \<open>One invocation of the evaluator: the frequency matrix, \<^verbatim>\<open>SD_id\<close> and \<^verbatim>\<open>imag\<close>.\<close>

type_synonym specden_call = "rmat \<times> int \<times> bool"

text \<open>
  The spectral-density object is a collaborator that is called as
  \<^verbatim>\<open>specden(freq, SD_id=..., imag=...)\<close> and carries the time grid \<^verbatim>\<open>specden.time\<close>.
  Its result is a real matrix for \<^verbatim>\<open>imag=False\<close> and a complex one for \<^verbatim>\<open>imag=True\<close>,
  hence the two fields.
\<close>

record SpectralDensity =
  call_real :: "rmat \<Rightarrow> int \<Rightarrow> rmat"
  call_imag :: "rmat \<Rightarrow> int \<Rightarrow> cmat"
  time :: "real list"

text \<open>
  The instance. The attributes \<^verbatim>\<open>rates\<close>, \<^verbatim>\<open>RTen\<close>, \<^verbatim>\<open>GammF\<close> and \<^verbatim>\<open>dephasing\<close> exist only
  once they have been assigned (the source tests them with \<^verbatim>\<open>hasattr\<close>), so they are
  options. \<open>ene\<close> and \<open>sec_tol\<close> are read by the secular filter only.
\<close>

record RedfieldTensor =
  dim :: nat
  U :: rmat
  Om :: rmat
  X :: rten3
  ene :: "nat \<Rightarrow> real"
  sec_tol :: real
  specden :: SpectralDensity
  SD_id_list :: "int list"
  secularize :: bool
  rates :: "rmat option"
  RTen :: "cten4 option"
  GammF :: "cten4 option"
  dephasing :: "cvec option"

datatype error = UnboundLocalError

subsection \<open>Array helpers\<close>

text \<open>\<^verbatim>\<open>M.T\<close>\<close>

definition T :: "(nat \<Rightarrow> nat \<Rightarrow> 'a) \<Rightarrow> (nat \<Rightarrow> nat \<Rightarrow> 'a)" where
  "T M = (\<lambda>a b. M b a)"

text \<open>\<^verbatim>\<open>np.eye(n)\<close>\<close>

definition eye :: "nat \<Rightarrow> nat \<Rightarrow> complex" where
  "eye a b = (if a = b then 1 else 0)"

text \<open>
  \<^verbatim>\<open>[*set(SD_id_list)]\<close>: the identifiers without repetition. Python leaves the order of a
  set open; \<open>remdups\<close> fixes one, and the lemmas \<open>rates_fold_any_order\<close>,
  \<open>GammF_fold_any_order\<close> and \<open>dephasing_loop_any_order\<close> show that the arrays computed
  by the three loops are the same for every order.
\<close>

definition distinct_ids :: "int list \<Rightarrow> int list" where
  "distinct_ids ids = remdups ids"

text \<open>\<^verbatim>\<open>[chrom_idx for chrom_idx,x in enumerate(SD_id_list) if x == SD_id]\<close>\<close>

definition mask_of :: "int list \<Rightarrow> int \<Rightarrow> nat list" where
  "mask_of ids SD_id = map fst (filter (\<lambda>(chrom_idx, x). x = SD_id) (enumerate 0 ids))"

subsection \<open>Rates\<close>

text \<open>
  One pass of the loop of \<^verbatim>\<open>_calc_redfield_rates\<close>; the second component logs the
  evaluator calls. \<^verbatim>\<open>contract('ia,ib,ab->ab', coef2[mask,:], coef2[mask,:], Cw_matrix)\<close>
  sums over the rows \<open>i\<close> selected by the mask.
\<close>

definition rates_step :: "RedfieldTensor \<Rightarrow> int \<Rightarrow> rmat \<times> specden_call list \<Rightarrow> rmat \<times> specden_call list" where
  "rates_step self SD_id acc =
     (let coef2 = (\<lambda>i a. (U self i a)\<^sup>2);
          Cw_matrix = call_real (specden self) (T (Om self)) SD_id;
          mask = mask_of (SD_id_list self) SD_id
      in (\<lambda>a b. fst acc a b + (\<Sum>i\<leftarrow>mask. coef2 i a * coef2 i b * Cw_matrix a b),
          snd acc @ [(T (Om self), SD_id, False)]))"

definition rates_loop :: "RedfieldTensor \<Rightarrow> rmat \<times> specden_call list" where
  "rates_loop self = fold (rates_step self) (distinct_ids (SD_id_list self)) (\<lambda>a b. 0, [])"

text \<open>
  \<^verbatim>\<open>rates[np.diag_indices_from(rates)] = 0.0\<close>, then
  \<^verbatim>\<open>rates[np.diag_indices_from(rates)] = -np.sum(rates,axis=0)\<close>.
\<close>

definition zero_diag :: "nat \<Rightarrow> rmat \<Rightarrow> rmat" where
  "zero_diag n R = (\<lambda>a b. if a = b \<and> a < n then 0 else R a b)"

definition sum_axis0 :: "nat \<Rightarrow> rmat \<Rightarrow> nat \<Rightarrow> real" where
  "sum_axis0 n R = (\<lambda>a. \<Sum>b\<leftarrow>[0..<n]. R b a)"

definition set_diag :: "nat \<Rightarrow> (nat \<Rightarrow> real) \<Rightarrow> rmat \<Rightarrow> rmat" where
  "set_diag n v R = (\<lambda>a b. if a = b \<and> a < n then v a else R a b)"

definition calc_redfield_rates :: "RedfieldTensor \<Rightarrow> rmat \<times> specden_call list" where
  "calc_redfield_rates self =
     (let acc = rates_loop self;
          rates0 = zero_diag (dim self) (fst acc);
          rates1 = set_diag (dim self) (\<lambda>a. - sum_axis0 (dim self) rates0 a) rates0
      in (rates1, snd acc))"

definition calc_rates :: "RedfieldTensor \<Rightarrow> RedfieldTensor" where
  "calc_rates self = self\<lparr>rates := Some (fst (calc_redfield_rates self))\<rparr>"

subsection \<open>Relaxation tensor\<close>

text \<open>
  \<^verbatim>\<open>_from_GammaF_to_RTen\<close>: \<open>tmpac\<close> is \<^verbatim>\<open>contract('ckka->ac',GammF)\<close>; the tensor is first
  \<^verbatim>\<open>contract('cabd->abcd',GammF) + contract('dbca->abcd',GammF.conj())\<close>, from which
  \<^verbatim>\<open>contract('ac,bd->abcd',eye,tmpac.conj()) + contract('ac,bd->abcd',tmpac,eye)\<close> is
  subtracted.
\<close>

definition from_GammaF_to_RTen :: "RedfieldTensor \<Rightarrow> cten4 \<Rightarrow> cten4" where
  "from_GammaF_to_RTen self G =
     (let tmpac = (\<lambda>a c. \<Sum>k\<leftarrow>[0..<dim self]. G c k k a)
      in (\<lambda>a b c d. (G c a b d + cnj (G d b c a))
                     - (eye a c * cnj (tmpac b d) + tmpac a c * eye b d)))"

text \<open>
  Modelled from the spec: \<^verbatim>\<open>_secularize\<close> is inherited from the base class, which is not
  part of the sources. The spec has it zero every element whose frequency combination
  \<open>(E\<^sub>a - E\<^sub>b) - (E\<^sub>c - E\<^sub>d)\<close> is non-zero outside a small tolerance, which it leaves open.
\<close>

definition secularize_filter :: "RedfieldTensor \<Rightarrow> cten4 \<Rightarrow> cten4" where
  "secularize_filter self R =
     (\<lambda>a b c d. if \<bar>(ene self a - ene self b) - (ene self c - ene self d)\<bar> \<le> sec_tol self
                 then R a b c d else 0)"

text \<open>
  One pass of the loop of \<^verbatim>\<open>_calc_redfield_tensor\<close>:
  \<^verbatim>\<open>contract('iab,icd,ba->abcd', X[mask,:,:], X[mask,:,:], Cw_matrix/2)\<close>.
\<close>

definition GammF_step :: "RedfieldTensor \<Rightarrow> int \<Rightarrow> cten4 \<times> specden_call list \<Rightarrow> cten4 \<times> specden_call list" where
  "GammF_step self SD_id acc =
     (let Cw_matrix = call_imag (specden self) (T (Om self)) SD_id;
          mask = mask_of (SD_id_list self) SD_id
      in (\<lambda>a b c d. fst acc a b c d
            + (\<Sum>i\<leftarrow>mask. complex_of_real (X self i a b) * complex_of_real (X self i c d)
                             * (Cw_matrix b a / 2)),
          snd acc @ [(T (Om self), SD_id, True)]))"

definition GammF_loop :: "RedfieldTensor \<Rightarrow> cten4 \<times> specden_call list" where
  "GammF_loop self = fold (GammF_step self) (distinct_ids (SD_id_list self)) (\<lambda>a b c d. 0, [])"

text \<open>
  \<^verbatim>\<open>_calc_redfield_tensor\<close> returns the tensor and leaves \<^verbatim>\<open>self.GammF\<close> assigned; the
  model returns the tensor, the instance afterwards and the evaluator calls.
\<close>

definition calc_redfield_tensor :: "RedfieldTensor \<Rightarrow> cten4 \<times> RedfieldTensor \<times> specden_call list" where
  "calc_redfield_tensor self =
     (let acc = GammF_loop self;
          self1 = self\<lparr>GammF := Some (fst acc)\<rparr>;
          R = from_GammaF_to_RTen self1 (fst acc);
          R1 = (if secularize self1 then secularize_filter self1 R else R)
      in (R1, self1, snd acc))"

definition calc_tensor :: "RedfieldTensor \<Rightarrow> RedfieldTensor" where
  "calc_tensor self =
     (let res = calc_redfield_tensor self in (fst (snd res))\<lparr>RTen := Some (fst res)\<rparr>)"

subsection \<open>Dephasing\<close>

text \<open>
  The locals \<^verbatim>\<open>GammF_aaaa\<close> and \<^verbatim>\<open>GammF_abba\<close> of the second case of
  \<^verbatim>\<open>_calc_redfield_dephasing\<close> are bound by the first pass of its loop and by nothing
  else; \<open>None\<close> is a local that is not bound yet, and reading it raises.
\<close>

type_synonym dephasing_locals = "cvec option \<times> cmat option"

fun dephasing_loop :: "RedfieldTensor \<Rightarrow> (nat \<times> int) list \<Rightarrow> dephasing_locals \<times> specden_call list
    \<Rightarrow> error + dephasing_locals \<times> specden_call list" where
  "dephasing_loop self [] acc = Inr acc"
| "dephasing_loop self ((SD_idx, SD_id) # rest) acc =
     (let Cw_matrix = call_imag (specden self) (T (Om self)) SD_id;
          mask = mask_of (SD_id_list self) SD_id;
          calls = snd acc @ [(T (Om self), SD_id, True)];
          aaaa = (\<lambda>a. \<Sum>i\<leftarrow>mask. complex_of_real (X self i a a) * complex_of_real (X self i a a)
                                  * Cw_matrix a a);
          abba = (\<lambda>a b. \<Sum>i\<leftarrow>mask. complex_of_real (X self i a b) * complex_of_real (X self i b a)
                                    * Cw_matrix b a)
      in if SD_idx = 0 then dephasing_loop self rest ((Some aaaa, Some abba), calls)
         else (case fst (fst acc) of
                 None \<Rightarrow> Inl UnboundLocalError
               | Some GammF_aaaa \<Rightarrow>
                   (case snd (fst acc) of
                      None \<Rightarrow> Inl UnboundLocalError
                    | Some GammF_abba \<Rightarrow>
                        dephasing_loop self rest
                          ((Some (\<lambda>a. GammF_aaaa a + aaaa a),
                            Some (\<lambda>a b. GammF_abba a b + abba a b)), calls))))"

text \<open>
  Case 1 reads the cached \<^verbatim>\<open>self.GammF\<close>:
  \<^verbatim>\<open>-(contract('aaaa->a',GammF) - contract('abba->a',GammF))\<close>.
\<close>

definition dephasing_case1 :: "RedfieldTensor \<Rightarrow> cten4 \<Rightarrow> cvec" where
  "dephasing_case1 self G = (\<lambda>a. - (G a a a a - (\<Sum>b\<leftarrow>[0..<dim self]. G a b b a)))"

text \<open>
  Case 2 runs the loop over \<^verbatim>\<open>enumerate([*set(SD_id_list)])\<close> and then reads both locals:
  \<^verbatim>\<open>-0.5*(GammF_aaaa - contract('ab->a',GammF_abba))\<close>.
\<close>

definition dephasing_case2 :: "RedfieldTensor \<Rightarrow> error + cvec \<times> specden_call list" where
  "dephasing_case2 self =
     (case dephasing_loop self (enumerate 0 (distinct_ids (SD_id_list self))) ((None, None), []) of
        Inl e \<Rightarrow> Inl e
      | Inr acc \<Rightarrow>
          (case fst (fst acc) of
             None \<Rightarrow> Inl UnboundLocalError
           | Some GammF_aaaa \<Rightarrow>
               (case snd (fst acc) of
                  None \<Rightarrow> Inl UnboundLocalError
                | Some GammF_abba \<Rightarrow>
                    Inr (\<lambda>a. - 0.5 * (GammF_aaaa a - (\<Sum>b\<leftarrow>[0..<dim self]. GammF_abba a b)),
                         snd acc))))"

definition calc_redfield_dephasing :: "RedfieldTensor \<Rightarrow> error + cvec \<times> specden_call list" where
  "calc_redfield_dephasing self =
     (case GammF self of
        Some G \<Rightarrow> Inr (dephasing_case1 self G, [])
      | None \<Rightarrow> dephasing_case2 self)"

definition calc_dephasing :: "RedfieldTensor \<Rightarrow> error + RedfieldTensor" where
  "calc_dephasing self =
     (case calc_redfield_dephasing self of
        Inl e \<Rightarrow> Inl e
      | Inr res \<Rightarrow> Inr (self\<lparr>dephasing := Some (fst res)\<rparr>))"

subsection \<open>The xi function\<close>



subsection \<open>Concrete instances\<close>

text \<open>An array given by its rows.\<close>

definition of_rows :: "'a list list \<Rightarrow> nat \<Rightarrow> nat \<Rightarrow> 'a" where
  "of_rows rows = (\<lambda>i a. rows ! i ! a)"

text \<open>
  An evaluator that returns the frequency itself for \<^verbatim>\<open>imag=False\<close> and the frequency plus
  \<open>\<i>\<close> for \<^verbatim>\<open>imag=True\<close>, with the time grid \<open>[0, 1/2]\<close>.
\<close>

definition sd_linear :: SpectralDensity where
  "sd_linear = \<lparr> call_real = (\<lambda>freq SD_id. freq),
                 call_imag = (\<lambda>freq SD_id a b. Complex (freq a b) 1),
                 time = [0, 1/2] \<rparr>"

text \<open>
  Two sites with energies 0 and 100 and the eigenvectors of the identity matrix, both sites
  under the identifier 0; nothing computed yet. The gaps are \<open>Om[a,b] = E\<^sub>b - E\<^sub>a\<close>, here and
  in the next instance.
\<close>

definition scenario_A :: "SpectralDensity \<Rightarrow> RedfieldTensor" where
  "scenario_A sd =
     \<lparr> dim = 2,
       U = of_rows [[1, 0], [0, 1]],
       Om = (\<lambda>a b. [0, 100] ! b - [0, 100] ! a),
       X = (\<lambda>i a b. of_rows [[1, 0], [0, 1]] i a * of_rows [[1, 0], [0, 1]] i b),
       ene = (\<lambda>a. [0, 100] ! a),
       sec_tol = 0,
       specden = sd,
       SD_id_list = [0, 0],
       secularize = False,
       rates = None, RTen = None, GammF = None, dephasing = None \<rparr>"

text \<open>
  Two sites with energies 0 and 100 and delocalised, orthonormal eigenvectors, the sites
  under the identifiers 0 and 1.
\<close>

definition dimer :: RedfieldTensor where
  "dimer =
     \<lparr> dim = 2,
       U = of_rows [[3/5, 4/5], [- 4/5, 3/5]],
       Om = (\<lambda>a b. [0, 100] ! b - [0, 100] ! a),
       X = (\<lambda>i a b. of_rows [[3/5, 4/5], [- 4/5, 3/5]] i a * of_rows [[3/5, 4/5], [- 4/5, 3/5]] i b),
       ene = (\<lambda>a. [0, 100] ! a),
       sec_tol = 0,
       specden = sd_linear,
       SD_id_list = [0, 1],
       secularize = True,
       rates = None, RTen = None, GammF = None, dephasing = None \<rparr>"

text \<open>No site at all: every array is empty and so is \<^verbatim>\<open>SD_id_list\<close>.\<close>

definition no_sites :: RedfieldTensor where
  "no_sites =
     \<lparr> dim = 0,
       U = (\<lambda>i a. 0),
       Om = (\<lambda>a b. 0),
       X = (\<lambda>i a b. 0),
       ene = (\<lambda>a. 0),
       sec_tol = 0,
       specden = sd_linear,
       SD_id_list = [],
       secularize = False,
       rates = None, RTen = None, GammF = None, dephasing = None \<rparr>"

subsection \<open>The symmetry of the projector tensor\<close>

text \<open>\<open>X[i,a,b] = X[i,b,a]\<close> for every site of \<^verbatim>\<open>SD_id_list\<close> and all states.\<close>

definition X_symmetric :: "RedfieldTensor \<Rightarrow> bool" where
  "X_symmetric self =
     (\<forall>i<length (SD_id_list self). \<forall>a<dim self. \<forall>b<dim self. X self i a b = X self i b a)"

section \<open>Properties\<close>

subsection \<open>Sums\<close>

lemma sum_list_diag_split:
  fixes f :: "nat \<Rightarrow> real"
  assumes "a < n"
  shows "(\<Sum>b\<leftarrow>[0..<n]. if b = a then v else f b) = v + (\<Sum>b\<leftarrow>[0..<n]. if b = a then 0 else f b)"
proof -
  have "(\<Sum>b\<leftarrow>[0..<n]. if b = a then v else f b) = (\<Sum>b = 0..<n. if b = a then v else f b)"
    by (simp add: interv_sum_list_conv_sum_set_nat)
  also have "\<dots> = (\<Sum>b = 0..<n. (if b = a then v else 0) + (if b = a then 0 else f b))"
    by (rule sum.cong) auto
  also have "\<dots> = (\<Sum>b = 0..<n. if b = a then v else 0) + (\<Sum>b = 0..<n. if b = a then 0 else f b)"
    by (simp add: sum.distrib)
  also have "(\<Sum>b = 0..<n. if b = a then v else 0) = v"
    using assms by simp
  finally show ?thesis
    by (simp add: interv_sum_list_conv_sum_set_nat)
qed

lemma sum_list_half:
  fixes f :: "'a \<Rightarrow> complex"
  shows "(\<Sum>x\<leftarrow>xs. f x / 2) = (\<Sum>x\<leftarrow>xs. f x) / 2"
  by (induction xs) (simp_all add: add_divide_distrib)

lemma sum_list_sum_list_half:
  fixes f :: "'a \<Rightarrow> 'b \<Rightarrow> complex"
  shows "(\<Sum>x\<leftarrow>xs. \<Sum>y\<leftarrow>g x. f x y / 2) = (\<Sum>x\<leftarrow>xs. \<Sum>y\<leftarrow>g x. f x y) / 2"
  by (induction xs) (simp_all add: add_divide_distrib sum_list_half)

lemma sum_list_same_elements:
  fixes f :: "int \<Rightarrow> 'a::comm_monoid_add"
  assumes "distinct ids" "set ids = set ids0"
  shows "(\<Sum>Z\<leftarrow>ids. f Z) = (\<Sum>Z\<leftarrow>distinct_ids ids0. f Z)"
  using assms by (simp add: sum_list_distinct_conv_sum_set distinct_ids_def)

subsection \<open>The mask of an identifier\<close>

lemma mask_of_set: "set (mask_of ids Z) = {i. i < length ids \<and> ids ! i = Z}"
  by (auto simp: mask_of_def in_set_enumerate_eq image_iff)


subsection \<open>The loops in closed form\<close>

lemma rates_fold:
  "fold (rates_step self) ids acc =
     (\<lambda>a b. fst acc a b + (\<Sum>Z\<leftarrow>ids. \<Sum>i\<leftarrow>mask_of (SD_id_list self) Z.
                 (U self i a)\<^sup>2 * (U self i b)\<^sup>2 * call_real (specden self) (T (Om self)) Z a b),
      snd acc @ map (\<lambda>Z. (T (Om self), Z, False)) ids)"
proof (induction ids arbitrary: acc)
  case Nil
  show ?case by simp
next
  case (Cons Z ids)
  show ?case
    by (simp add: Cons.IH) (simp add: rates_step_def Let_def add.assoc)
qed

lemma GammF_fold:
  "fold (GammF_step self) ids acc =
     (\<lambda>a b c d. fst acc a b c d + (\<Sum>Z\<leftarrow>ids. \<Sum>i\<leftarrow>mask_of (SD_id_list self) Z.
                 complex_of_real (X self i a b) * complex_of_real (X self i c d)
                   * (call_imag (specden self) (T (Om self)) Z b a / 2)),
      snd acc @ map (\<lambda>Z. (T (Om self), Z, True)) ids)"
proof (induction ids arbitrary: acc)
  case Nil
  show ?case by simp
next
  case (Cons Z ids)
  show ?case
    by (simp add: Cons.IH) (simp add: GammF_step_def Let_def add.assoc)
qed

text \<open>Once both locals are bound, the loop of the second dephasing case cannot fail.\<close>

lemma dephasing_loop_bound:
  "0 < n \<Longrightarrow>
   dephasing_loop self (enumerate n ids) ((Some g1, Some g2), calls) =
     Inr ((Some (\<lambda>a. g1 a + (\<Sum>Z\<leftarrow>ids. \<Sum>i\<leftarrow>mask_of (SD_id_list self) Z.
                   complex_of_real (X self i a a) * complex_of_real (X self i a a)
                     * call_imag (specden self) (T (Om self)) Z a a)),
           Some (\<lambda>a b. g2 a b + (\<Sum>Z\<leftarrow>ids. \<Sum>i\<leftarrow>mask_of (SD_id_list self) Z.
                   complex_of_real (X self i a b) * complex_of_real (X self i b a)
                     * call_imag (specden self) (T (Om self)) Z b a))),
          calls @ map (\<lambda>Z. (T (Om self), Z, True)) ids)"
proof (induction ids arbitrary: n g1 g2 calls)
  case Nil
  show ?case by simp
next
  case (Cons Z ids)
  from Cons.prems show ?case
    by (simp add: Let_def Cons.IH add.assoc)
qed

lemma dephasing_loop_first:
  "dephasing_loop self (enumerate 0 (Z0 # ids)) ((None, None), []) =
     Inr ((Some (\<lambda>a. \<Sum>Z\<leftarrow>Z0 # ids. \<Sum>i\<leftarrow>mask_of (SD_id_list self) Z.
                   complex_of_real (X self i a a) * complex_of_real (X self i a a)
                     * call_imag (specden self) (T (Om self)) Z a a),
           Some (\<lambda>a b. \<Sum>Z\<leftarrow>Z0 # ids. \<Sum>i\<leftarrow>mask_of (SD_id_list self) Z.
                   complex_of_real (X self i a b) * complex_of_real (X self i b a)
                     * call_imag (specden self) (T (Om self)) Z b a)),
          map (\<lambda>Z. (T (Om self), Z, True)) (Z0 # ids))"
  by (simp add: Let_def dephasing_loop_bound)

subsection \<open>The order of the identifiers does not matter\<close>

lemma rates_fold_any_order:
  assumes "distinct ids" "set ids = set (SD_id_list self)"
  shows "fst (fold (rates_step self) ids (\<lambda>a b. 0, [])) = fst (rates_loop self)"
  by (simp add: rates_loop_def rates_fold sum_list_same_elements [OF assms])

lemma GammF_fold_any_order:
  assumes "distinct ids" "set ids = set (SD_id_list self)"
  shows "fst (fold (GammF_step self) ids (\<lambda>a b c d. 0, [])) = fst (GammF_loop self)"
  by (simp add: GammF_loop_def GammF_fold sum_list_same_elements [OF assms])

lemma dephasing_loop_any_order:
  assumes "distinct ids" "set ids = set (SD_id_list self)"
  shows "map_sum id fst (dephasing_loop self (enumerate 0 ids) ((None, None), []))
       = map_sum id fst (dephasing_loop self (enumerate 0 (distinct_ids (SD_id_list self))) ((None, None), []))"
proof (cases ids)
  case Nil
  with assms have "distinct_ids (SD_id_list self) = []" by (simp add: distinct_ids_def)
  with Nil show ?thesis by simp
next
  case (Cons Z0 rest)
  with assms obtain Z1 rest1 where ids1: "distinct_ids (SD_id_list self) = Z1 # rest1"
    by (cases "distinct_ids (SD_id_list self)") (auto simp: distinct_ids_def)
  show ?thesis
    unfolding ids1 dephasing_loop_first
    unfolding ids1 [symmetric] Cons dephasing_loop_first
    unfolding Cons [symmetric]
    by (simp add: sum_list_same_elements [OF assms])
qed

subsection \<open>The two dephasing cases\<close>

lemma dephasing_case2_empty:
  assumes "SD_id_list self = []"
  shows "dephasing_case2 self = Inl UnboundLocalError"
  using assms by (simp add: dephasing_case2_def distinct_ids_def)

lemma dephasing_case2_nonempty:
  assumes "SD_id_list self \<noteq> []"
  shows "dephasing_case2 self =
     Inr (\<lambda>a. - 0.5 * ((\<Sum>Z\<leftarrow>distinct_ids (SD_id_list self). \<Sum>i\<leftarrow>mask_of (SD_id_list self) Z.
                   complex_of_real (X self i a a) * complex_of_real (X self i a a)
                     * call_imag (specden self) (T (Om self)) Z a a)
              - (\<Sum>b\<leftarrow>[0..<dim self]. \<Sum>Z\<leftarrow>distinct_ids (SD_id_list self). \<Sum>i\<leftarrow>mask_of (SD_id_list self) Z.
                   complex_of_real (X self i a b) * complex_of_real (X self i b a)
                     * call_imag (specden self) (T (Om self)) Z b a)),
          map (\<lambda>Z. (T (Om self), Z, True)) (distinct_ids (SD_id_list self)))"
proof -
  from assms obtain Z0 ids where ids: "distinct_ids (SD_id_list self) = Z0 # ids"
    by (cases "distinct_ids (SD_id_list self)") (simp_all add: distinct_ids_def)
  show ?thesis
    unfolding dephasing_case2_def ids dephasing_loop_first by simp
qed

lemma dephasing_paths_agree:
  assumes "SD_id_list self \<noteq> []"
  shows "dephasing_case2 self =
           Inr (dephasing_case1 self (fst (GammF_loop self)),
                map (\<lambda>Z. (T (Om self), Z, True)) (distinct_ids (SD_id_list self)))"
proof -
  have "\<And>a. - 0.5 * ((\<Sum>Z\<leftarrow>distinct_ids (SD_id_list self). \<Sum>i\<leftarrow>mask_of (SD_id_list self) Z.
                   complex_of_real (X self i a a) * complex_of_real (X self i a a)
                     * call_imag (specden self) (T (Om self)) Z a a)
              - (\<Sum>b\<leftarrow>[0..<dim self]. \<Sum>Z\<leftarrow>distinct_ids (SD_id_list self). \<Sum>i\<leftarrow>mask_of (SD_id_list self) Z.
                   complex_of_real (X self i a b) * complex_of_real (X self i b a)
                     * call_imag (specden self) (T (Om self)) Z b a))
        = dephasing_case1 self (fst (GammF_loop self)) a"
    by (simp add: dephasing_case1_def GammF_loop_def GammF_fold sum_list_sum_list_half
        sum_list_half diff_divide_distrib)
  then show ?thesis
    by (simp add: dephasing_case2_nonempty [OF assms])
qed


lemma GammF_loop_swap:
  assumes "X_symmetric self" "c < dim self" "d < dim self"
  shows "fst (GammF_loop self) a b c d = fst (GammF_loop self) a b d c"
proof -
  have "\<And>Z i. i \<in> set (mask_of (SD_id_list self) Z) \<Longrightarrow> X self i c d = X self i d c"
    using assms by (simp add: X_symmetric_def mask_of_set)
  then show ?thesis
    by (simp add: GammF_loop_def GammF_fold cong: map_cong)
qed

section \<open>The claims\<close>

text \<open>
  C1. For every tensor \<open>G\<close> the conversion returns
  \<open>R[a,b,c,d] = G[c,a,b,d] + conj(G[d,b,c,a]) - \<delta>(a,c) conj(T[b,d]) - \<delta>(b,d) T[a,c]\<close>
  with \<open>T[p,q] = \<Sum>e<dim. G[q,e,e,p]\<close>, in exactly this index order.
\<close>

theorem from_GammaF_to_RTen_identity:
  "from_GammaF_to_RTen self G a b c d =
     G c a b d + cnj (G d b c a)
     - (if a = c then 1 else 0) * cnj (\<Sum>e\<leftarrow>[0..<dim self]. G d e e b)
     - (if b = d then 1 else 0) * (\<Sum>e\<leftarrow>[0..<dim self]. G c e e a)"
  by (simp add: from_GammaF_to_RTen_def eye_def)




text \<open>
  C3. When \<open>X[i,a,b] = X[i,b,a]\<close>, the tensor returned by the tensor builder satisfies
  \<open>R[a,b,c,d] = conj(R[b,a,d,c])\<close> for all states \<open>a, b, c, d\<close> below \<open>dim\<close>, with and without
  the secular filter.
\<close>

theorem calc_redfield_tensor_hermitian:
  assumes "X_symmetric self" "a < dim self" "b < dim self" "c < dim self" "d < dim self"
  shows "fst (calc_redfield_tensor self) a b c d = cnj (fst (calc_redfield_tensor self) b a d c)"
proof -
  define G where "G = fst (GammF_loop self)"
  have s1: "G c a b d = G c a d b" and s2: "G d b c a = G d b a c"
    unfolding G_def using assms by (simp_all add: GammF_loop_swap)
  have conv: "from_GammaF_to_RTen self G a b c d = cnj (from_GammaF_to_RTen self G b a d c)"
    by (simp add: from_GammaF_to_RTen_def eye_def s1 s2)
  have gap: "\<bar>ene self a - ene self b - (ene self c - ene self d)\<bar>
             = \<bar>ene self b - ene self a - (ene self d - ene self c)\<bar>"
    by (simp add: abs_if)
  show ?thesis
    using conv gap
    by (simp add: calc_redfield_tensor_def Let_def secularize_filter_def G_def from_GammaF_to_RTen_def)
qed

theorem calc_redfield_tensor_hermitian_witness:
  "X_symmetric dimer \<and> (0::nat) < dim dimer \<and> (1::nat) < dim dimer
   \<and> fst (calc_redfield_tensor dimer) 0 1 0 1 = cnj (fst (calc_redfield_tensor dimer) 1 0 1 0)"
proof -
  have "X_symmetric dimer" by (simp add: X_symmetric_def dimer_def mult.commute)
  moreover have "(0::nat) < dim dimer" "(1::nat) < dim dimer" by (simp_all add: dimer_def)
  ultimately show ?thesis
    using calc_redfield_tensor_hermitian [of dimer 0 1 0 1] by simp
qed

text \<open>
  C4. In the matrix returned by the rate calculator the diagonal entry of every column
  \<open>a < dim\<close> is minus the sum of the accumulated off-diagonal entries of that column, and
  the column sums to zero, whatever the evaluator returns.
\<close>

theorem calc_redfield_rates_column_sum:
  assumes a: "a < dim self"
  shows "fst (calc_redfield_rates self) a a
           = - (\<Sum>b\<leftarrow>[0..<dim self]. if b = a then 0 else fst (rates_loop self) b a)
       \<and> (\<Sum>b\<leftarrow>[0..<dim self]. fst (calc_redfield_rates self) b a) = 0"
proof -
  define R0 where "R0 = zero_diag (dim self) (fst (rates_loop self))"
  have offdiag: "\<And>b. b < dim self \<Longrightarrow> R0 b a = (if b = a then 0 else fst (rates_loop self) b a)"
    using a by (simp add: R0_def zero_diag_def)
  have diag0: "\<And>b. b < dim self \<Longrightarrow> (if b = a then 0 else R0 b a) = R0 b a"
    using a by (simp add: R0_def zero_diag_def)
  have entry: "\<And>b. b < dim self \<Longrightarrow> fst (calc_redfield_rates self) b a
                     = (if b = a then - sum_axis0 (dim self) R0 a else R0 b a)"
    by (simp add: calc_redfield_rates_def Let_def set_diag_def R0_def)
  have "sum_axis0 (dim self) R0 a
          = (\<Sum>b\<leftarrow>[0..<dim self]. if b = a then 0 else fst (rates_loop self) b a)"
    unfolding sum_axis0_def
    by (rule arg_cong [where f = sum_list], rule map_cong) (simp_all add: offdiag)
  with entry [OF a] have diag: "fst (calc_redfield_rates self) a a
           = - (\<Sum>b\<leftarrow>[0..<dim self]. if b = a then 0 else fst (rates_loop self) b a)"
    by simp
  have "(\<Sum>b\<leftarrow>[0..<dim self]. fst (calc_redfield_rates self) b a)
        = (\<Sum>b\<leftarrow>[0..<dim self]. if b = a then - sum_axis0 (dim self) R0 a else R0 b a)"
    by (rule arg_cong [where f = sum_list], rule map_cong) (simp_all add: entry)
  also have "\<dots> = - sum_axis0 (dim self) R0 a + (\<Sum>b\<leftarrow>[0..<dim self]. if b = a then 0 else R0 b a)"
    by (rule sum_list_diag_split [OF a])
  also have "(\<Sum>b\<leftarrow>[0..<dim self]. if b = a then 0 else R0 b a) = (\<Sum>b\<leftarrow>[0..<dim self]. R0 b a)"
    by (rule arg_cong [where f = sum_list], rule map_cong) (simp_all add: diag0)
  finally have "(\<Sum>b\<leftarrow>[0..<dim self]. fst (calc_redfield_rates self) b a) = 0"
    by (simp add: sum_axis0_def)
  with diag show ?thesis by simp
qed

theorem calc_redfield_rates_column_sum_witness:
  "(0::nat) < dim dimer
   \<and> fst (calc_redfield_rates dimer) 0 0
           = - (\<Sum>b\<leftarrow>[0..<dim dimer]. if b = 0 then 0 else fst (rates_loop dimer) b 0)
   \<and> (\<Sum>b\<leftarrow>[0..<dim dimer]. fst (calc_redfield_rates dimer) b 0) = 0"
proof -
  have "(0::nat) < dim dimer" by (simp add: dimer_def)
  then show ?thesis using calc_redfield_rates_column_sum [of 0 dimer] by simp
qed



text \<open>
  C6, amended. In the two-site system with energies 0 and 100, \<open>U = I\<close> and one shared
  identifier, the computed rate matrix is zero for every evaluator: \<open>rate[1,0] = 0\<close> and
  \<open>rate[0,0] = -rate[1,0]\<close>.
\<close>

theorem scenario_A_rates_vanish:
  "fst (calc_redfield_rates (scenario_A sd)) 1 0 = 0
   \<and> fst (calc_redfield_rates (scenario_A sd)) 0 0 = - fst (calc_redfield_rates (scenario_A sd)) 1 0
   \<and> fst (calc_redfield_rates (scenario_A sd)) 0 1 = 0
   \<and> fst (calc_redfield_rates (scenario_A sd)) 1 1 = 0"
  apply (simp add: calc_redfield_rates_def rates_loop_def rates_fold Let_def set_diag_def
      zero_diag_def distinct_ids_def sum_axis0_def)
  apply (simp add: scenario_A_def mask_of_def enumerate_eq_zip T_def of_rows_def upt_rec
      numeral_2_eq_2)
  done

text \<open>
  With the evaluator that returns the frequency itself, the frequency handed to the
  evaluator at the entry \<open>[1,0]\<close> is the gap 100, the evaluator's output there is 100, and
  the rate \<open>rate[1,0]\<close> is 0.
\<close>

theorem scenario_A_rate_counterexample:
  "T (Om (scenario_A sd_linear)) 1 0 = 100
   \<and> call_real (specden (scenario_A sd_linear)) (T (Om (scenario_A sd_linear))) 0 1 0 = 100
   \<and> fst (calc_redfield_rates (scenario_A sd_linear)) 1 0 = 0"
  apply (simp add: calc_redfield_rates_def rates_loop_def rates_fold Let_def set_diag_def
      zero_diag_def distinct_ids_def sum_axis0_def)
  apply (simp add: scenario_A_def mask_of_def enumerate_eq_zip T_def of_rows_def sd_linear_def)
  done







text \<open>
  C10. When \<^verbatim>\<open>GammF\<close> is not cached, the dephasing calculator returns exactly when
  \<^verbatim>\<open>SD_id_list\<close> is not empty; for an empty \<^verbatim>\<open>SD_id_list\<close> the loop that binds the locals
  never runs and the operation fails with \<^verbatim>\<open>UnboundLocalError\<close>.
\<close>

theorem calc_redfield_dephasing_unbound:
  assumes "GammF self = None"
  shows "((\<exists>res. calc_redfield_dephasing self = Inr res) = (SD_id_list self \<noteq> []))
       \<and> (SD_id_list self = [] \<longrightarrow>
            dephasing_loop self (enumerate 0 (distinct_ids (SD_id_list self))) ((None, None), [])
              = Inr ((None, None), [])
          \<and> calc_redfield_dephasing self = Inl UnboundLocalError)"
  using assms
  by (cases "SD_id_list self = []")
     (simp_all add: calc_redfield_dephasing_def dephasing_case2_empty dephasing_paths_agree
        distinct_ids_def)

theorem calc_redfield_dephasing_unbound_witness:
  "GammF no_sites = None \<and> SD_id_list no_sites = []
   \<and> dephasing_loop no_sites (enumerate 0 (distinct_ids (SD_id_list no_sites))) ((None, None), [])
              = Inr ((None, None), [])
   \<and> calc_redfield_dephasing no_sites = Inl UnboundLocalError
   \<and> \<not> (\<exists>res. calc_redfield_dephasing no_sites = Inr res)"
proof -
  have "GammF no_sites = None" "SD_id_list no_sites = []" by (simp_all add: no_sites_def)
  then show ?thesis using calc_redfield_dephasing_unbound [of no_sites] by simp
qed

end
